theory Spec2Isabelle
  imports Main "HOL-Library.List_Lexorder" "HOL-Library.Char_ord" "HOL-Library.Signed_Division"
begin

section \<open>Stellar Homestead: the simulation core of homestead.cpp\<close>

text \<open>
  The development embeds the classes of \<^verbatim>\<open>src/homestead.cpp\<close>: \<^verbatim>\<open>Resource\<close>,
  the \<^verbatim>\<open>Building\<close> hierarchy, \<^verbatim>\<open>Colonist\<close>, the \<^verbatim>\<open>Event\<close> hierarchy,
  \<^verbatim>\<open>GameState\<close> and \<^verbatim>\<open>GameEngine\<close>.

  Conventions.
  \<^item> A C++ \<^verbatim>\<open>int\<close> is a mathematical integer: signed overflow is undefined behaviour in
    C++, so the model speaks about the runs in which no quantity leaves the range of
    \<^verbatim>\<open>int\<close>. The division of \<^verbatim>\<open>int\<close> truncates towards zero (\<open>sdiv\<close>).
  \<^item> A \<^verbatim>\<open>std::map<std::string,int>\<close> is an association list kept in ascending key order,
    which is the order in which the range-based \<^verbatim>\<open>for\<close> loops of the source visit it.
  \<^item> A thrown exception is a value of type \<open>exn\<close>. A member function that can throw and
    mutates its object returns the exception, if any, together with the object as it is
    left behind.
  \<^item> Console output, the one-second sleep, the save file and the configuration file are
    left out; the random roll and the numbers read from standard input are parameters.
\<close>

subsection \<open>Exceptions\<close>

text \<open>The argument of each constructor is the string handed to the C++ constructor.\<close>

datatype exn =
    ResourceException string
  | GameStateException string
  | ColonistException string

subsection \<open>Resource (lines 46-137)\<close>

type_synonym Resource = "(string \<times> int) list"

text \<open>\<^verbatim>\<open>resources[k] = v\<close> on the underlying map: overwrite, or insert in key order.\<close>

fun assign :: "string \<Rightarrow> int \<Rightarrow> Resource \<Rightarrow> Resource" where
  "assign k v [] = [(k, v)]"
| "assign k v ((k', v') # rest) =
     (if k = k' then (k, v) # rest
      else if k < k' then (k, v) # (k', v') # rest
      else (k', v') # assign k v rest)"

text \<open>\<^verbatim>\<open>resources.find(k)\<close>: the stored quantity, if the key is present.\<close>

definition find_key :: "Resource \<Rightarrow> string \<Rightarrow> int option" where
  "find_key r k = map_of r k"

text \<open>
  The non-const \<^verbatim>\<open>operator[]\<close> (lines 88-90) value-initialises a missing key to 0:
  \<open>at r k\<close> is the integer it then refers to and \<open>touch k r\<close> is the map afterwards.
\<close>

definition at :: "Resource \<Rightarrow> string \<Rightarrow> int" where
  "at r k = (case find_key r k of None \<Rightarrow> 0 | Some v \<Rightarrow> v)"

definition touch :: "string \<Rightarrow> Resource \<Rightarrow> Resource" where
  "touch k r = (case find_key r k of None \<Rightarrow> assign k 0 r | Some v \<Rightarrow> r)"

text \<open>The default constructor (lines 51-56).\<close>

definition Resource_new :: Resource where
  "Resource_new =
     assign ''oxygen'' 100 (assign ''materials'' 50 (assign ''energy'' 100 (assign ''food'' 100 [])))"

text \<open>
  \<^verbatim>\<open>operator+\<close> (lines 59-65): \<open>plus_loop result ps\<close> runs the loop over the remaining
  pairs \<open>ps\<close> of \<^verbatim>\<open>other\<close> on the copy \<open>result\<close>.
\<close>

fun plus_loop :: "Resource \<Rightarrow> Resource \<Rightarrow> Resource" where
  "plus_loop result [] = result"
| "plus_loop result ((k, v) # ps) = plus_loop (assign k (at result k + v) result) ps"

definition Resource_plus :: "Resource \<Rightarrow> Resource \<Rightarrow> Resource" where
  "Resource_plus this other = plus_loop this other"

text \<open>
  \<^verbatim>\<open>operator-\<close> (lines 67-76): the copy is debited pair by pair and the first quantity
  that falls below zero raises the exception.
\<close>

fun minus_loop :: "Resource \<Rightarrow> Resource \<Rightarrow> exn + Resource" where
  "minus_loop result [] = Inr result"
| "minus_loop result ((k, v) # ps) =
     (let result' = assign k (at result k - v) result
      in if at result' k < 0 then Inl (ResourceException (''Insufficient '' @ k))
         else minus_loop result' ps)"

definition Resource_minus :: "Resource \<Rightarrow> Resource \<Rightarrow> exn + Resource" where
  "Resource_minus this other = minus_loop this other"

text \<open>
  \<^verbatim>\<open>operator+=\<close> and \<^verbatim>\<open>operator-=\<close> (lines 78-86) assign the result to \<^verbatim>\<open>*this\<close>.
  When \<^verbatim>\<open>operator-\<close> throws, the assignment is not reached.
\<close>

definition Resource_plus_assign :: "Resource \<Rightarrow> Resource \<Rightarrow> Resource" where
  "Resource_plus_assign this other = Resource_plus this other"

definition Resource_minus_assign :: "Resource \<Rightarrow> Resource \<Rightarrow> exn option \<times> Resource" where
  "Resource_minus_assign this other =
     (case Resource_minus this other of
        Inl e \<Rightarrow> (Some e, this)
      | Inr result \<Rightarrow> (None, result))"

text \<open>\<^verbatim>\<open>canAfford\<close> (lines 100-108), a const member: it returns a truth value only.\<close>

fun canAfford_loop :: "Resource \<Rightarrow> Resource \<Rightarrow> bool" where
  "canAfford_loop this [] = True"
| "canAfford_loop this ((k, v) # ps) =
     (case find_key this k of
        None \<Rightarrow> False
      | Some q \<Rightarrow> if q < v then False else canAfford_loop this ps)"

definition canAfford :: "Resource \<Rightarrow> Resource \<Rightarrow> bool" where
  "canAfford this cost = canAfford_loop this cost"

text \<open>The class invariant of \<^verbatim>\<open>std::map\<close>: keys strictly ascending, hence distinct.\<close>

definition keys :: "Resource \<Rightarrow> string list" where
  "keys r = map fst r"

definition is_map :: "Resource \<Rightarrow> bool" where
  "is_map r = sorted_wrt (<) (keys r)"

subsection \<open>Buildings (lines 148-270)\<close>

datatype BuildingKind = SolarPanel | Greenhouse | OxygenGenerator | MaterialFactory

record Building =
  kind :: BuildingKind
  b_name :: string
  cost :: Resource
  production :: Resource
  level :: int
  operational :: bool

text \<open>
  The base constructor (lines 157-158) default-constructs \<^verbatim>\<open>cost\<close> and
  \<^verbatim>\<open>production\<close>; the derived constructors then overwrite single entries.
\<close>

definition Building_new :: "BuildingKind \<Rightarrow> string \<Rightarrow> Building" where
  "Building_new bk buildingName =
     \<lparr>kind = bk, b_name = buildingName, cost = Resource_new, production = Resource_new,
      level = 1, operational = True\<rparr>"

definition SolarPanel_new :: Building where
  "SolarPanel_new =
     (let b = Building_new SolarPanel ''Solar Panel'';
          b = b\<lparr>cost := assign ''materials'' 20 (cost b)\<rparr>
      in b\<lparr>production := assign ''energy'' 15 (production b)\<rparr>)"

definition Greenhouse_new :: Building where
  "Greenhouse_new =
     (let b = Building_new Greenhouse ''Greenhouse'';
          b = b\<lparr>cost := assign ''materials'' 30 (cost b)\<rparr>;
          b = b\<lparr>cost := assign ''energy'' 10 (cost b)\<rparr>
      in b\<lparr>production := assign ''food'' 20 (production b)\<rparr>)"

definition OxygenGenerator_new :: Building where
  "OxygenGenerator_new =
     (let b = Building_new OxygenGenerator ''Oxygen Generator'';
          b = b\<lparr>cost := assign ''materials'' 25 (cost b)\<rparr>;
          b = b\<lparr>cost := assign ''energy'' 15 (cost b)\<rparr>
      in b\<lparr>production := assign ''oxygen'' 10 (production b)\<rparr>)"

definition MaterialFactory_new :: Building where
  "MaterialFactory_new =
     (let b = Building_new MaterialFactory ''Material Factory'';
          b = b\<lparr>cost := assign ''materials'' 40 (cost b)\<rparr>;
          b = b\<lparr>cost := assign ''energy'' 20 (cost b)\<rparr>
      in b\<lparr>production := assign ''materials'' 8 (production b)\<rparr>)"

text \<open>
  The four \<^verbatim>\<open>produce\<close> overrides (lines 196-201, 217-222, 238-243, 259-264) differ in
  the resource name only. \<^verbatim>\<open>production[k]\<close> is the non-const subscript, so the
  building is returned with its \<^verbatim>\<open>production\<close> map touched.
\<close>

definition produce_kind :: "string \<Rightarrow> Building \<Rightarrow> Resource \<times> Building" where
  "produce_kind k b =
     (if \<not> operational b then (Resource_new, b)
      else
        let output = Resource_new;
            output = assign k (at (production b) k * level b) output
        in (output, b\<lparr>production := touch k (production b)\<rparr>))"

definition produced_resource :: "BuildingKind \<Rightarrow> string" where
  "produced_resource bk =
     (case bk of
        SolarPanel \<Rightarrow> ''energy''
      | Greenhouse \<Rightarrow> ''food''
      | OxygenGenerator \<Rightarrow> ''oxygen''
      | MaterialFactory \<Rightarrow> ''materials'')"

text \<open>The virtual call \<^verbatim>\<open>building->produce()\<close>.\<close>

definition produce :: "Building \<Rightarrow> Resource \<times> Building" where
  "produce b = produce_kind (produced_resource (kind b)) b"

subsection \<open>Colonists (lines 273-342)\<close>

record Colonist =
  c_name :: string
  specialization :: string
  experience :: int
  health :: int
  assigned :: bool

definition Colonist_new :: "string \<Rightarrow> string \<Rightarrow> Colonist" where
  "Colonist_new colonistName spec =
     \<lparr>c_name = colonistName, specialization = spec, experience = 0, health = 100,
      assigned = False\<rparr>"

text \<open>\<^verbatim>\<open>work\<close> (lines 286-307) returns the output and the colonist with the new experience.\<close>

definition work :: "Colonist \<Rightarrow> exn + (Resource \<times> Colonist)" where
  "work c =
     (if health c < 50 then Inl (ColonistException (c_name c @ '' is too sick to work''))
      else
        let output = Resource_new;
            c = c\<lparr>experience := experience c + 1\<rparr>;
            output =
              (if specialization c = ''Engineer'' then
                 assign ''materials'' (5 + experience c sdiv 10) output
               else if specialization c = ''Scientist'' then
                 assign ''oxygen'' (2 + experience c sdiv 20)
                   (assign ''energy'' (3 + experience c sdiv 15) output)
               else if specialization c = ''Farmer'' then
                 assign ''food'' (8 + experience c sdiv 8) output
               else
                 assign ''food'' 2 (assign ''materials'' 2 output))
        in Inr (output, c))"

definition rest :: "Colonist \<Rightarrow> Colonist" where
  "rest c = c\<lparr>health := min 100 (health c + 10), assigned := False\<rparr>"

definition setAssigned :: "bool \<Rightarrow> Colonist \<Rightarrow> Colonist" where
  "setAssigned status c = c\<lparr>assigned := status\<rparr>"

subsection \<open>Events (lines 345-413)\<close>

datatype EventKind = SolarStorm | TradeShip | MeteorShower

record Event =
  e_kind :: EventKind
  e_name :: string
  description :: string
  resourceEffect :: Resource
  probability :: int

text \<open>The base constructor (lines 353-354) default-constructs \<^verbatim>\<open>resourceEffect\<close>.\<close>

definition Event_new :: "EventKind \<Rightarrow> string \<Rightarrow> string \<Rightarrow> int \<Rightarrow> Event" where
  "Event_new ek eventName desc prob =
     \<lparr>e_kind = ek, e_name = eventName, description = desc, resourceEffect = Resource_new,
      probability = prob\<rparr>"

definition setResourceEffect :: "string \<Rightarrow> int \<Rightarrow> Event \<Rightarrow> Event" where
  "setResourceEffect resource amount e =
     e\<lparr>resourceEffect := assign resource amount (resourceEffect e)\<rparr>"

definition SolarStorm_new :: Event where
  "SolarStorm_new =
     setResourceEffect ''energy'' (- 30)
       (Event_new SolarStorm ''Solar Storm'' ''A solar storm damages energy systems!'' 15)"

definition TradeShip_new :: Event where
  "TradeShip_new =
     setResourceEffect ''food'' 15
       (setResourceEffect ''materials'' 20
          (Event_new TradeShip ''Trade Ship Arrival'' ''A trade ship offers resources!'' 25))"

definition MeteorShower_new :: Event where
  "MeteorShower_new =
     setResourceEffect ''oxygen'' (- 10)
       (setResourceEffect ''materials'' 30
          (Event_new MeteorShower ''Meteor Shower''
             ''Meteors provide rare materials but damage buildings!'' 10))"

text \<open>
  \<^verbatim>\<open>Event::execute\<close> (lines 359-368). The handler of \<^verbatim>\<open>ResourceException\<close> around
  \<^verbatim>\<open>resources += resourceEffect\<close> is never entered, because \<^verbatim>\<open>operator+\<close> has no
  \<^verbatim>\<open>throw\<close>. The roster is read only, so the ledger alone is returned.
\<close>

definition Event_execute :: "Event \<Rightarrow> Resource \<Rightarrow> Colonist list \<Rightarrow> Resource" where
  "Event_execute e resources colonists = Resource_plus_assign resources (resourceEffect e)"

text \<open>The loop of \<^verbatim>\<open>SolarStorm::execute\<close> (lines 389-395), left at the first Engineer.\<close>

fun repair_loop :: "Colonist list \<Rightarrow> Resource \<Rightarrow> Resource" where
  "repair_loop [] resources = resources"
| "repair_loop (colonist # others) resources =
     (if specialization colonist = ''Engineer'' then
        assign ''energy'' (at resources ''energy'' + 10) resources
      else repair_loop others resources)"

definition SolarStorm_execute :: "Event \<Rightarrow> Resource \<Rightarrow> Colonist list \<Rightarrow> Resource" where
  "SolarStorm_execute e resources colonists =
     repair_loop colonists (Event_execute e resources colonists)"

text \<open>The virtual call \<^verbatim>\<open>event->execute(...)\<close>: only SolarStorm overrides it.\<close>

definition execute :: "Event \<Rightarrow> Resource \<Rightarrow> Colonist list \<Rightarrow> Resource" where
  "execute e resources colonists =
     (case e_kind e of
        SolarStorm \<Rightarrow> SolarStorm_execute e resources colonists
      | TradeShip \<Rightarrow> Event_execute e resources colonists
      | MeteorShower \<Rightarrow> Event_execute e resources colonists)"

subsection \<open>GameState (lines 416-489)\<close>

datatype GamePhase = SETUP | PRODUCTION | EVENT | MANAGEMENT | END

record GameState =
  currentPhase :: GamePhase
  turn :: int
  colonistCount :: int
  gameRunning :: bool

definition GameState_new :: GameState where
  "GameState_new = \<lparr>currentPhase = SETUP, turn = 1, colonistCount = 0, gameRunning = True\<rparr>"

definition nextPhase :: "GameState \<Rightarrow> GameState" where
  "nextPhase gs =
     (case currentPhase gs of
        SETUP \<Rightarrow> gs\<lparr>currentPhase := PRODUCTION\<rparr>
      | PRODUCTION \<Rightarrow> gs\<lparr>currentPhase := EVENT\<rparr>
      | EVENT \<Rightarrow> gs\<lparr>currentPhase := MANAGEMENT\<rparr>
      | MANAGEMENT \<Rightarrow> gs\<lparr>currentPhase := PRODUCTION, turn := turn gs + 1\<rparr>
      | END \<Rightarrow> gs\<lparr>gameRunning := False\<rparr>)"

definition endGame :: "GameState \<Rightarrow> GameState" where
  "endGame gs = gs\<lparr>currentPhase := END, gameRunning := False\<rparr>"

definition setColonistCount :: "int \<Rightarrow> GameState \<Rightarrow> GameState" where
  "setColonistCount count gs = gs\<lparr>colonistCount := count\<rparr>"

subsection \<open>GameEngine (lines 492-869)\<close>

text \<open>The random generator and the configuration map take no part in any rule of the game.\<close>

record GameEngine =
  gameState :: GameState
  colonyResources :: Resource
  buildings :: "Building list"
  colonists :: "Colonist list"
  events :: "Event list"

text \<open>
  What one pass of the game loop reads from outside: the number drawn in the Event phase
  and the numbers typed in the Management phase (the menu entry, the structure to build,
  the colonist to assign, the last one a \<^verbatim>\<open>size_t\<close>).
\<close>

record Input =
  roll :: int
  menuChoice :: int
  structureChoice :: int
  colonistChoice :: nat

text \<open>The members as they are default-constructed, before the constructor body runs.\<close>

definition GameEngine_members :: GameEngine where
  "GameEngine_members =
     \<lparr>gameState = GameState_new, colonyResources = Resource_new, buildings = [],
      colonists = [], events = []\<rparr>"

definition setupEvents :: "GameEngine \<Rightarrow> GameEngine" where
  "setupEvents g =
     (let g = g\<lparr>events := events g @ [SolarStorm_new]\<rparr>;
          g = g\<lparr>events := events g @ [TradeShip_new]\<rparr>
      in g\<lparr>events := events g @ [MeteorShower_new]\<rparr>)"

definition initializeGame :: "GameEngine \<Rightarrow> GameEngine" where
  "initializeGame g =
     (let g = setupEvents g;
          g = g\<lparr>colonists := colonists g @ [Colonist_new ''Alex Chen'' ''Engineer'']\<rparr>;
          g = g\<lparr>colonists := colonists g @ [Colonist_new ''Maria Santos'' ''Scientist'']\<rparr>;
          g = g\<lparr>colonists := colonists g @ [Colonist_new ''James Wilson'' ''Farmer'']\<rparr>;
          g = g\<lparr>gameState := setColonistCount (int (length (colonists g))) (gameState g)\<rparr>;
          g = g\<lparr>buildings := buildings g @ [SolarPanel_new]\<rparr>
      in g\<lparr>buildings := buildings g @ [Greenhouse_new]\<rparr>)"

text \<open>The engine that \<^verbatim>\<open>main\<close> constructs (line 878).\<close>

definition GameEngine_new :: GameEngine where
  "GameEngine_new = initializeGame GameEngine_members"

text \<open>
  \<^verbatim>\<open>handleProductionPhase\<close> (lines 576-611). The two loops return the running total and
  the producers as they leave them; the colonist loop stops at an exception of
  \<^verbatim>\<open>work\<close>, which leaves the function with the ledger not yet touched.
\<close>

fun building_loop :: "Building list \<Rightarrow> Resource \<Rightarrow> Resource \<times> Building list" where
  "building_loop [] totalProduction = (totalProduction, [])"
| "building_loop (building # bs) totalProduction =
     (if operational building then
        let (buildingOutput, building') = produce building;
            totalProduction = Resource_plus_assign totalProduction buildingOutput;
            (total, bs') = building_loop bs totalProduction
        in (total, building' # bs')
      else
        let (total, bs') = building_loop bs totalProduction
        in (total, building # bs'))"

fun colonist_loop :: "Colonist list \<Rightarrow> Resource \<Rightarrow> exn option \<times> Resource \<times> Colonist list" where
  "colonist_loop [] totalProduction = (None, totalProduction, [])"
| "colonist_loop (colonist # cs) totalProduction =
     (if \<not> assigned colonist \<and> health colonist > 50 then
        (case work colonist of
           Inl e \<Rightarrow> (Some e, totalProduction, colonist # cs)
         | Inr (colonistOutput, colonist') \<Rightarrow>
             let totalProduction = Resource_plus_assign totalProduction colonistOutput;
                 (thrown, total, cs') = colonist_loop cs totalProduction
             in (thrown, total, colonist' # cs'))
      else
        let (thrown, total, cs') = colonist_loop cs totalProduction
        in (thrown, total, colonist # cs'))"

text \<open>Lines 579-600: the aggregate of all producers, added to the ledger.\<close>

definition production_step :: "GameEngine \<Rightarrow> exn option \<times> GameEngine" where
  "production_step g =
     (let totalProduction = Resource_new;
          (totalProduction, bs) = building_loop (buildings g) totalProduction;
          g = g\<lparr>buildings := bs\<rparr>;
          (thrown, totalProduction, cs) = colonist_loop (colonists g) totalProduction;
          g = g\<lparr>colonists := cs\<rparr>
      in case thrown of
           Some e \<Rightarrow> (Some e, g)
         | None \<Rightarrow>
             (None, g\<lparr>colonyResources :=
                        Resource_plus_assign (colonyResources g) totalProduction\<rparr>))"

text \<open>Lines 603-606: the per-turn consumption; the sizes are converted to \<^verbatim>\<open>int\<close>.\<close>

definition consumption :: "GameEngine \<Rightarrow> Resource" where
  "consumption g =
     (let c = Resource_new;
          c = assign ''food'' (int (length (colonists g)) * 3) c;
          c = assign ''oxygen'' (int (length (colonists g)) * 2) c
      in assign ''energy'' (int (length (buildings g)) * 2) c)"

text \<open>Line 608.\<close>

definition consumption_step :: "GameEngine \<Rightarrow> exn option \<times> GameEngine" where
  "consumption_step g =
     (let (thrown, r) = Resource_minus_assign (colonyResources g) (consumption g)
      in (thrown, g\<lparr>colonyResources := r\<rparr>))"

definition handleProductionPhase :: "GameEngine \<Rightarrow> exn option \<times> GameEngine" where
  "handleProductionPhase g =
     (case production_step g of
        (Some e, g') \<Rightarrow> (Some e, g')
      | (None, g') \<Rightarrow> consumption_step g')"

text \<open>
  \<^verbatim>\<open>handleEventPhase\<close> (lines 613-631); \<open>r\<close> is the drawn number. The loop returns the
  ledger and \<^verbatim>\<open>eventTriggered\<close>.
\<close>

fun event_loop :: "Event list \<Rightarrow> int \<Rightarrow> Resource \<Rightarrow> Colonist list \<Rightarrow> Resource \<times> bool" where
  "event_loop [] r resources cs = (resources, False)"
| "event_loop (event # es) r resources cs =
     (if r \<le> probability event then (execute event resources cs, True)
      else event_loop es r resources cs)"

definition handleEventPhase :: "GameEngine \<Rightarrow> int \<Rightarrow> GameEngine" where
  "handleEventPhase g r =
     (let (resources, eventTriggered) = event_loop (events g) r (colonyResources g) (colonists g)
      in g\<lparr>colonyResources := resources\<rparr>)"

text \<open>\<^verbatim>\<open>buildStructure\<close> (lines 665-703); \<open>choice\<close> is the number read at line 673.\<close>

definition buildStructure :: "GameEngine \<Rightarrow> int \<Rightarrow> exn option \<times> GameEngine" where
  "buildStructure g choice =
     (case (if choice = 1 then Some SolarPanel_new
            else if choice = 2 then Some Greenhouse_new
            else if choice = 3 then Some OxygenGenerator_new
            else if choice = 4 then Some MaterialFactory_new
            else None) of
        None \<Rightarrow> (None, g)
      | Some newBuilding \<Rightarrow>
          if canAfford (colonyResources g) (cost newBuilding) then
            (case Resource_minus_assign (colonyResources g) (cost newBuilding) of
               (Some e, r) \<Rightarrow> (Some e, g\<lparr>colonyResources := r\<rparr>)
             | (None, r) \<Rightarrow>
                 (None, g\<lparr>colonyResources := r, buildings := buildings g @ [newBuilding]\<rparr>))
          else (None, g))"

text \<open>\<^verbatim>\<open>assignColonists\<close> (lines 705-720); \<open>choice\<close> is the number read at line 714.\<close>

definition assignColonists :: "GameEngine \<Rightarrow> nat \<Rightarrow> GameEngine" where
  "assignColonists g choice =
     (if choice > 0 \<and> choice \<le> length (colonists g) then
        g\<lparr>colonists := (colonists g)[choice - 1 := setAssigned True (colonists g ! (choice - 1))]\<rparr>
      else g)"

definition restColonists :: "GameEngine \<Rightarrow> GameEngine" where
  "restColonists g = g\<lparr>colonists := map rest (colonists g)\<rparr>"

text \<open>\<^verbatim>\<open>saveGame\<close> (lines 785-813) writes the file and leaves the engine as it is.\<close>

definition saveGame :: "GameEngine \<Rightarrow> GameEngine" where
  "saveGame g = g"

text \<open>\<^verbatim>\<open>handleManagementPhase\<close> (lines 633-663).\<close>

definition handleManagementPhase :: "GameEngine \<Rightarrow> Input \<Rightarrow> exn option \<times> GameEngine" where
  "handleManagementPhase g inp =
     (if menuChoice inp = 1 then buildStructure g (structureChoice inp)
      else if menuChoice inp = 2 then (None, assignColonists g (colonistChoice inp))
      else if menuChoice inp = 3 then (None, restColonists g)
      else if menuChoice inp = 4 then (None, saveGame g)
      else (None, g))"

text \<open>
  \<^verbatim>\<open>checkGameConditions\<close> (lines 750-770). The ledger is read with the non-const
  subscript; \<^verbatim>\<open>||\<close> reads the oxygen only when the food is positive.
\<close>

definition checkGameConditions :: "GameEngine \<Rightarrow> GameEngine" where
  "checkGameConditions g =
     (if turn (gameState g) \<ge> 10 \<and> length (colonists g) \<ge> 3 then
        g\<lparr>gameState := endGame (gameState g)\<rparr>
      else
        let food = at (colonyResources g) ''food'';
            g = g\<lparr>colonyResources := touch ''food'' (colonyResources g)\<rparr>
        in if food \<le> 0 then g\<lparr>gameState := endGame (gameState g)\<rparr>
           else
             let oxygen = at (colonyResources g) ''oxygen'';
                 g = g\<lparr>colonyResources := touch ''oxygen'' (colonyResources g)\<rparr>
             in if oxygen \<le> 0 then g\<lparr>gameState := endGame (gameState g)\<rparr>
                else if colonists g = [] then g\<lparr>gameState := endGame (gameState g)\<rparr>
                else g)"

text \<open>
  The \<^verbatim>\<open>switch\<close> of \<^verbatim>\<open>runGameLoop\<close> (lines 539-555). The Setup and End handlers only
  print and wait for a key.
\<close>

definition handlePhase :: "GameEngine \<Rightarrow> Input \<Rightarrow> exn option \<times> GameEngine" where
  "handlePhase g inp =
     (case currentPhase (gameState g) of
        SETUP \<Rightarrow> (None, g)
      | PRODUCTION \<Rightarrow> handleProductionPhase g
      | EVENT \<Rightarrow> (None, handleEventPhase g (roll inp))
      | MANAGEMENT \<Rightarrow> handleManagementPhase g inp
      | END \<Rightarrow> (None, g))"

text \<open>
  One pass through the body of the \<^verbatim>\<open>while\<close> loop (lines 536-566). Every exception
  of the handlers derives from \<^verbatim>\<open>std::exception\<close> and ends in \<^verbatim>\<open>handleError\<close>, which
  prints; the pass then goes on with \<^verbatim>\<open>nextPhase\<close> and \<^verbatim>\<open>checkGameConditions\<close>.
\<close>

definition loop_body :: "GameEngine \<Rightarrow> Input \<Rightarrow> GameEngine" where
  "loop_body g inp =
     (let (thrown, g) = handlePhase g inp;
          g = g\<lparr>gameState := nextPhase (gameState g)\<rparr>
      in checkGameConditions g)"

text \<open>The engines that the loop can hold at the head of a pass.\<close>

inductive reachable :: "GameEngine \<Rightarrow> bool" where
  start: "reachable GameEngine_new"
| pass: "reachable g \<Longrightarrow> gameRunning (gameState g) \<Longrightarrow> reachable (loop_body g inp)"

section \<open>Properties\<close>

subsection \<open>The map operations\<close>

lemma find_key_assign:
  "find_key (assign k v r) k' = (if k' = k then Some v else find_key r k')"
  by (induction r) (auto simp: find_key_def)

lemma at_assign: "at (assign k v r) k' = (if k' = k then v else at r k')"
  by (simp add: at_def find_key_assign)

lemma find_key_keys: "(find_key r k = None) = (k \<notin> set (keys r))"
  by (simp add: find_key_def keys_def map_of_eq_None_iff)

lemma find_key_distinct:
  "distinct (keys d) \<Longrightarrow> (k, v) \<in> set d \<Longrightarrow> find_key d k = Some v"
  by (simp add: find_key_def keys_def)

lemma is_map_distinct: "is_map r \<Longrightarrow> distinct (keys r)"
  by (simp add: is_map_def strict_sorted_iff)

lemma find_key_Cons:
  "find_key ((k, v) # d) k' = (if k' = k then Some v else find_key d k')"
  by (simp add: find_key_def)

lemma find_key_Nil: "find_key [] k = None"
  by (simp add: find_key_def)


lemma minus_loop_ok:
  "distinct (keys d) \<Longrightarrow> \<forall>(k, v)\<in>set d. 0 \<le> at r k - v \<Longrightarrow>
   \<exists>r'. minus_loop r d = Inr r' \<and>
        (\<forall>k. find_key r' k = (case find_key d k of None \<Rightarrow> find_key r k | Some v \<Rightarrow> Some (at r k - v)))"
proof (induction d arbitrary: r)
  case Nil
  then show ?case by (simp add: find_key_Nil)
next
  case (Cons p d)
  obtain k v where p: "p = (k, v)" by (cases p)
  let ?r1 = "assign k (at r k - v) r"
  have kd: "k \<notin> set (keys d)" and dd: "distinct (keys d)"
    using Cons.prems(1) p by (simp_all add: keys_def)
  have nonneg: "0 \<le> at r k - v" using Cons.prems(2) p by simp
  have rest_ok: "\<forall>(k', v')\<in>set d. 0 \<le> at ?r1 k' - v'"
  proof clarify
    fix k' v' assume mem: "(k', v') \<in> set d"
    then have "k' \<noteq> k" using kd by (force simp: keys_def)
    moreover have "0 \<le> at r k' - v'" using Cons.prems(2) mem by auto
    ultimately show "0 \<le> at ?r1 k' - v'" by (simp add: at_assign)
  qed
  from Cons.IH[OF dd rest_ok] obtain r' where
    r': "minus_loop ?r1 d = Inr r'"
    and fk: "\<And>k'. find_key r' k' = (case find_key d k' of None \<Rightarrow> find_key ?r1 k' | Some v' \<Rightarrow> Some (at ?r1 k' - v'))"
    by blast
  have run: "minus_loop r (p # d) = Inr r'"
    using r' nonneg p by (simp add: Let_def at_assign)
  have "find_key r' k' = (case find_key (p # d) k' of None \<Rightarrow> find_key r k' | Some v' \<Rightarrow> Some (at r k' - v'))" for k'
  proof (cases "k' = k")
    case True
    have "find_key d k = None" using kd by (simp add: find_key_keys)
    then show ?thesis using True fk[of k] p by (simp add: find_key_assign find_key_Cons)
  next
    case False
    then show ?thesis using fk[of k'] p
      by (simp add: find_key_assign at_assign find_key_Cons split: option.splits)
  qed
  with run show ?case by blast
qed

lemma minus_loop_fail:
  "distinct (keys (pre @ (k, v) # post)) \<Longrightarrow> \<forall>(k', v')\<in>set pre. 0 \<le> at r k' - v' \<Longrightarrow>
   at r k - v < 0 \<Longrightarrow>
   minus_loop r (pre @ (k, v) # post) = Inl (ResourceException (''Insufficient '' @ k))"
proof (induction pre arbitrary: r)
  case Nil
  then show ?case by (simp add: Let_def at_assign)
next
  case (Cons p pre)
  obtain k0 v0 where p: "p = (k0, v0)" by (cases p)
  let ?r1 = "assign k0 (at r k0 - v0) r"
  have d': "distinct (keys (pre @ (k, v) # post))" and k0k: "k0 \<noteq> k"
    and k0pre: "k0 \<notin> fst ` set pre"
    using Cons.prems(1) p by (auto simp: keys_def)
  have nonneg: "0 \<le> at r k0 - v0" using Cons.prems(2) p by simp
  have pre_ok: "\<forall>(k', v')\<in>set pre. 0 \<le> at ?r1 k' - v'"
  proof clarify
    fix k' v' assume mem: "(k', v') \<in> set pre"
    then have "k' \<noteq> k0" using k0pre by force
    moreover have "0 \<le> at r k' - v'" using Cons.prems(2) mem by auto
    ultimately show "0 \<le> at ?r1 k' - v'" by (simp add: at_assign)
  qed
  have neg: "at ?r1 k - v < 0" using Cons.prems(3) k0k by (simp add: at_assign)
  have "minus_loop ?r1 (pre @ (k, v) # post) = Inl (ResourceException (''Insufficient '' @ k))"
    by (rule Cons.IH[OF d' pre_ok neg])
  then show ?case using p nonneg by (simp add: Let_def at_assign)
qed

lemma canAfford_loop_iff:
  "canAfford_loop l c = (\<forall>(k, v)\<in>set c. \<exists>q. find_key l k = Some q \<and> v \<le> q)"
  by (induction c) (auto simp: find_key_Cons split: option.splits if_splits)

lemma at_in_keys:
  "distinct (keys d) \<Longrightarrow> (k, v) \<in> set d \<Longrightarrow> at d k = v"
  by (simp add: at_def find_key_distinct)

lemma minus_loop_succeeds_iff:
  assumes "distinct (keys d)"
  shows "(\<exists>r'. minus_loop r d = Inr r') = (\<forall>k\<in>set (keys d). 0 \<le> at r k - at d k)"
proof
  assume ok: "\<exists>r'. minus_loop r d = Inr r'"
  show "\<forall>k\<in>set (keys d). 0 \<le> at r k - at d k"
  proof (rule ccontr)
    assume "\<not> (\<forall>k\<in>set (keys d). 0 \<le> at r k - at d k)"
    then have "\<exists>p\<in>set d. at r (fst p) - snd p < 0"
      using assms by (force simp: keys_def at_in_keys)
    then obtain pre p post where split: "d = pre @ p # post" and neg: "at r (fst p) - snd p < 0"
      and first: "\<forall>q\<in>set pre. \<not> at r (fst q) - snd q < 0"
      using split_list_first_prop [where P = "\<lambda>p. at r (fst p) - snd p < 0" and xs = d]
      by blast
    have "minus_loop r (pre @ (fst p, snd p) # post) = Inl (ResourceException (''Insufficient '' @ fst p))"
      by (rule minus_loop_fail) (use assms split neg first in \<open>auto\<close>)
    with ok split show False by simp
  qed
next
  assume "\<forall>k\<in>set (keys d). 0 \<le> at r k - at d k"
  then have "\<forall>(k, v)\<in>set d. 0 \<le> at r k - v"
    using assms by (force simp: keys_def at_in_keys)
  from minus_loop_ok[OF assms this] show "\<exists>r'. minus_loop r d = Inr r'" by blast
qed

subsection \<open>The ledger\<close>

text \<open>
  C4. \<^verbatim>\<open>subtract(delta)\<close> is \<^verbatim>\<open>ledger -= delta\<close>. For every ledger and every delta (a
  \<^verbatim>\<open>std::map\<close>, so with its keys in ascending order): if some kind of delta would come
  out negative, the call throws \<^verbatim>\<open>ResourceException("Insufficient " + kind)\<close> for the
  first such kind in key order and the ledger after the call is the ledger before it; if
  no kind would come out negative, the call succeeds and the new ledger holds, for every
  kind of delta, the old quantity (0 for a kind the ledger lacked) minus the amount of
  delta, and every other kind as before.
\<close>

theorem subtract_all_or_nothing:
  assumes "is_map delta"
  shows "((\<exists>k\<in>set (keys delta). at ledger k - at delta k < 0) \<longrightarrow>
            (\<exists>k\<in>set (keys delta). at ledger k - at delta k < 0 \<and>
               (\<forall>k'\<in>set (keys delta). k' < k \<longrightarrow> 0 \<le> at ledger k' - at delta k') \<and>
               Resource_minus_assign ledger delta =
                 (Some (ResourceException (''Insufficient '' @ k)), ledger))) \<and>
         ((\<forall>k\<in>set (keys delta). 0 \<le> at ledger k - at delta k) \<longrightarrow>
            (\<exists>r. Resource_minus_assign ledger delta = (None, r) \<and>
               (\<forall>k. find_key r k =
                  (if k \<in> set (keys delta) then Some (at ledger k - at delta k)
                   else find_key ledger k))))"
proof (intro conjI impI)
  have dist: "distinct (keys delta)" using assms by (rule is_map_distinct)
  assume "\<exists>k\<in>set (keys delta). at ledger k - at delta k < 0"
  then have "\<exists>p\<in>set delta. at ledger (fst p) - snd p < 0"
    using dist by (force simp: keys_def at_in_keys)
  then obtain pre p post where split: "delta = pre @ p # post"
    and neg: "at ledger (fst p) - snd p < 0"
    and first: "\<forall>q\<in>set pre. \<not> at ledger (fst q) - snd q < 0"
    using split_list_first_prop [where P = "\<lambda>p. at ledger (fst p) - snd p < 0" and xs = delta]
    by blast
  have p_in: "p \<in> set delta" using split by simp
  have run: "minus_loop ledger (pre @ (fst p, snd p) # post) =
      Inl (ResourceException (''Insufficient '' @ fst p))"
    by (rule minus_loop_fail) (use dist split neg first in \<open>auto\<close>)
  have below: "0 \<le> at ledger k' - at delta k'" if mem: "k' \<in> set (keys delta)" and lt: "k' < fst p" for k'
  proof -
    have "sorted_wrt (<) (map fst pre @ fst p # map fst post)"
      using assms split by (simp add: is_map_def keys_def)
    then have "\<forall>y\<in>set (map fst post). fst p < y"
      by (simp add: sorted_wrt_append)
    then have "k' \<notin> set (map fst post)" using lt by auto
    moreover have "k' \<noteq> fst p" using lt by simp
    ultimately have "k' \<in> fst ` set pre" using mem split by (auto simp: keys_def)
    then obtain q where q: "q \<in> set pre" "fst q = k'" by auto
    then have "q \<in> set delta" using split by simp
    then have "(k', snd q) \<in> set delta" using q(2) by (cases q) auto
    then have "at delta k' = snd q" using dist by (rule at_in_keys[rotated])
    then show ?thesis using first q by auto
  qed
  have "(fst p, snd p) \<in> set delta" using p_in by simp
  then have "at delta (fst p) = snd p" using dist by (rule at_in_keys[rotated])
  then have "at ledger (fst p) - at delta (fst p) < 0" using neg by simp
  moreover have "fst p \<in> set (keys delta)" using p_in by (simp add: keys_def)
  moreover have "Resource_minus_assign ledger delta =
      (Some (ResourceException (''Insufficient '' @ fst p)), ledger)"
    using run split by (simp add: Resource_minus_assign_def Resource_minus_def)
  ultimately show "\<exists>k\<in>set (keys delta). at ledger k - at delta k < 0 \<and>
      (\<forall>k'\<in>set (keys delta). k' < k \<longrightarrow> 0 \<le> at ledger k' - at delta k') \<and>
      Resource_minus_assign ledger delta = (Some (ResourceException (''Insufficient '' @ k)), ledger)"
    using below by blast
next
  have dist: "distinct (keys delta)" using assms by (rule is_map_distinct)
  assume "\<forall>k\<in>set (keys delta). 0 \<le> at ledger k - at delta k"
  then have "\<forall>(k, v)\<in>set delta. 0 \<le> at ledger k - v"
    using dist by (force simp: keys_def at_in_keys)
  from minus_loop_ok[OF dist this] obtain r where
    run: "minus_loop ledger delta = Inr r"
    and fk: "\<And>k. find_key r k = (case find_key delta k of None \<Rightarrow> find_key ledger k | Some v \<Rightarrow> Some (at ledger k - v))"
    by blast
  have "find_key r k = (if k \<in> set (keys delta) then Some (at ledger k - at delta k) else find_key ledger k)" for k
    using fk[of k] by (auto simp: at_def find_key_keys[symmetric] split: option.splits)
  moreover have "Resource_minus_assign ledger delta = (None, r)"
    using run by (simp add: Resource_minus_assign_def Resource_minus_def)
  ultimately show "\<exists>r. Resource_minus_assign ledger delta = (None, r) \<and>
      (\<forall>k. find_key r k = (if k \<in> set (keys delta) then Some (at ledger k - at delta k) else find_key ledger k))"
    by blast
qed

theorem subtract_all_or_nothing_witness:
  "is_map (assign ''materials'' 60 Resource_new) \<and>
   (\<exists>k\<in>set (keys (assign ''materials'' 60 Resource_new)).
      at Resource_new k - at (assign ''materials'' 60 Resource_new) k < 0) \<and>
   Resource_minus_assign Resource_new (assign ''materials'' 60 Resource_new) =
     (Some (ResourceException ''Insufficient materials''), Resource_new) \<and>
   is_map (assign ''materials'' 20 Resource_new) \<and>
   Resource_minus_assign Resource_new (assign ''materials'' 20 Resource_new) =
     (None, [(''energy'', 0), (''food'', 0), (''materials'', 30), (''oxygen'', 0)])"
  using subtract_all_or_nothing [of "assign ''materials'' 60 Resource_new" Resource_new]
    subtract_all_or_nothing [of "assign ''materials'' 20 Resource_new" Resource_new]
  by (simp add: Resource_new_def is_map_def keys_def at_def find_key_def
      Resource_minus_assign_def Resource_minus_def Let_def)

text \<open>
  C5, as the code has it. \<^verbatim>\<open>canAfford(cost)\<close> is true exactly when every kind of the cost
  is present in the ledger and \<^verbatim>\<open>ledger - cost\<close> would succeed. A kind of the cost that
  the ledger lacks makes \<^verbatim>\<open>canAfford\<close> false (the test \<^verbatim>\<open>it == resources.end()\<close>),
  whereas \<^verbatim>\<open>operator-\<close> creates the kind with quantity 0 before it debits. Being a const
  member that returns a truth value, \<^verbatim>\<open>canAfford\<close> leaves the ledger as it is.
\<close>

theorem canAfford_iff_present_and_subtract:
  assumes "is_map price"
  shows "canAfford ledger price =
           (set (keys price) \<subseteq> set (keys ledger) \<and> (\<exists>r. Resource_minus ledger price = Inr r))"
proof -
  have dist: "distinct (keys price)" using assms by (rule is_map_distinct)
  have afford: "canAfford ledger price =
      (\<forall>(k, v)\<in>set price. \<exists>q. find_key ledger k = Some q \<and> v \<le> q)"
    by (simp add: canAfford_def canAfford_loop_iff)
  have minus: "(\<exists>r. Resource_minus ledger price = Inr r) =
      (\<forall>k\<in>set (keys price). 0 \<le> at ledger k - at price k)"
    using minus_loop_succeeds_iff[OF dist] by (simp add: Resource_minus_def)
  show ?thesis
  proof
    assume ca: "canAfford ledger price"
    have "k \<in> set (keys ledger) \<and> 0 \<le> at ledger k - at price k" if "k \<in> set (keys price)" for k
    proof -
      from that obtain v where mem: "(k, v) \<in> set price" by (auto simp: keys_def)
      with ca afford obtain q where q: "find_key ledger k = Some q" "v \<le> q" by blast
      have "at price k = v" using dist mem by (rule at_in_keys)
      moreover have "at ledger k = q" using q(1) by (simp add: at_def)
      moreover have "k \<in> set (keys ledger)" using q(1) find_key_keys[of ledger k] by simp
      ultimately show ?thesis using q(2) by simp
    qed
    then show "set (keys price) \<subseteq> set (keys ledger) \<and> (\<exists>r. Resource_minus ledger price = Inr r)"
      using minus by blast
  next
    assume rhs: "set (keys price) \<subseteq> set (keys ledger) \<and> (\<exists>r. Resource_minus ledger price = Inr r)"
    have "\<exists>q. find_key ledger k = Some q \<and> v \<le> q" if mem: "(k, v) \<in> set price" for k v
    proof -
      have kc: "k \<in> set (keys price)" using mem by (force simp: keys_def)
      then have "k \<in> set (keys ledger)" using rhs by blast
      then obtain q where q: "find_key ledger k = Some q"
        using find_key_keys[of ledger k] by (cases "find_key ledger k") auto
      have "at price k = v" using dist mem by (rule at_in_keys)
      moreover have "at ledger k = q" using q by (simp add: at_def)
      moreover have "0 \<le> at ledger k - at price k" using rhs minus kc by blast
      ultimately show ?thesis using q by simp
    qed
    then show "canAfford ledger price" using afford by blast
  qed
qed

theorem canAfford_iff_present_and_subtract_witness:
  "is_map (cost SolarPanel_new) \<and> canAfford Resource_new (cost SolarPanel_new) \<and>
   set (keys (cost SolarPanel_new)) \<subseteq> set (keys Resource_new) \<and>
   Resource_minus Resource_new (cost SolarPanel_new) =
     Inr [(''energy'', 0), (''food'', 0), (''materials'', 30), (''oxygen'', 0)]"
  using canAfford_iff_present_and_subtract [of "cost SolarPanel_new" Resource_new]
  by (simp add: SolarPanel_new_def Building_new_def Resource_new_def is_map_def keys_def
      at_def find_key_def Resource_minus_def Let_def canAfford_def)

text \<open>
  C5 as stated fails where the cost names a kind that the ledger lacks and asks nothing of
  it: the default ledger and the cost of a solar panel after \<^verbatim>\<open>cost["water"]\<close> has been
  read through the non-const subscript. \<^verbatim>\<open>canAfford\<close> is false, the subtraction succeeds.
\<close>

theorem canAfford_counterexample:
  "\<not> canAfford Resource_new (touch ''water'' (cost SolarPanel_new)) \<and>
   Resource_minus Resource_new (touch ''water'' (cost SolarPanel_new)) =
     Inr [(''energy'', 0), (''food'', 0), (''materials'', 30), (''oxygen'', 0), (''water'', 0)]"
  by (simp add: SolarPanel_new_def Building_new_def Resource_new_def touch_def
      at_def find_key_def Resource_minus_def Let_def canAfford_def)

subsection \<open>Events\<close>

lemma event_loop_find:
  "event_loop es r resources cs =
     (case List.find (\<lambda>e. r \<le> probability e) es of
        None \<Rightarrow> (resources, False)
      | Some e \<Rightarrow> (execute e resources cs, True))"
  by (induction es) simp_all

lemma catalog:
  "events GameEngine_new = [SolarStorm_new, TradeShip_new, MeteorShower_new]"
  by (simp add: GameEngine_new_def initializeGame_def setupEvents_def GameEngine_members_def Let_def)

lemma probabilities:
  "probability SolarStorm_new = 15" "probability TradeShip_new = 25"
  "probability MeteorShower_new = 10"
  by (simp_all add: SolarStorm_new_def TradeShip_new_def MeteorShower_new_def
      setResourceEffect_def Event_new_def)

lemma event_kinds:
  "e_kind SolarStorm_new = SolarStorm" "e_kind TradeShip_new = TradeShip"
  "e_kind MeteorShower_new = MeteorShower"
  by (simp_all add: SolarStorm_new_def TradeShip_new_def MeteorShower_new_def
      setResourceEffect_def Event_new_def)

lemma effects:
  "resourceEffect SolarStorm_new =
     [(''energy'', - 30), (''food'', 100), (''materials'', 50), (''oxygen'', 100)]"
  "resourceEffect TradeShip_new =
     [(''energy'', 100), (''food'', 15), (''materials'', 20), (''oxygen'', 100)]"
  "resourceEffect MeteorShower_new =
     [(''energy'', 100), (''food'', 100), (''materials'', 30), (''oxygen'', - 10)]"
  by (simp_all add: SolarStorm_new_def TradeShip_new_def MeteorShower_new_def
      setResourceEffect_def Event_new_def Resource_new_def)

lemma at_repair_loop:
  "at (repair_loop cs r) k =
     at r k + (if k = ''energy'' \<and> ''Engineer'' \<in> specialization ` set cs then 10 else 0)"
  by (induction cs) (auto simp: at_assign)

lemma at_Event_execute_SolarStorm:
  "at (Event_execute SolarStorm_new r cs) ''energy'' = at r ''energy'' - 30"
  by (simp add: Event_execute_def Resource_plus_assign_def Resource_plus_def effects at_assign)

lemma at_Event_execute_TradeShip:
  "at (Event_execute TradeShip_new r cs) k =
     at r k + (if k = ''energy'' then 100 else if k = ''food'' then 15
               else if k = ''materials'' then 20 else if k = ''oxygen'' then 100 else 0)"
  by (simp add: Event_execute_def Resource_plus_assign_def Resource_plus_def effects at_assign)

text \<open>
  C6. For every drawn number \<open>r\<close> (in particular every \<open>r\<close> from 1 to 100) the Event phase
  executes the first event of the catalog, in its order, whose weight is at least \<open>r\<close>,
  and leaves the engine as it is when there is none. The catalog is SolarStorm (15),
  TradeShip (25), MeteorShower (10), so the selection is SolarStorm up to 15, TradeShip
  from 16 to 25 and nothing above; the number 15 executes SolarStorm although TradeShip
  qualifies as well.
\<close>

theorem event_first_match:
  "handleEventPhase g r =
     (case List.find (\<lambda>e. r \<le> probability e) (events g) of
        None \<Rightarrow> g
      | Some e \<Rightarrow> g\<lparr>colonyResources := execute e (colonyResources g) (colonists g)\<rparr>) \<and>
   map (\<lambda>e. (e_kind e, probability e)) (events GameEngine_new) =
     [(SolarStorm, 15), (TradeShip, 25), (MeteorShower, 10)] \<and>
   List.find (\<lambda>e. r \<le> probability e) (events GameEngine_new) =
     (if r \<le> 15 then Some SolarStorm_new
      else if r \<le> 25 then Some TradeShip_new
      else None) \<and>
   handleEventPhase GameEngine_new 15 =
     GameEngine_new\<lparr>colonyResources :=
       execute SolarStorm_new (colonyResources GameEngine_new) (colonists GameEngine_new)\<rparr>"
  by (simp add: handleEventPhase_def event_loop_find catalog probabilities event_kinds
      split: option.splits)

text \<open>
  C7. Executing SolarStorm changes the Energy of the ledger by exactly \<open>- 20\<close> when the
  roster holds an Engineer (\<open>- 30\<close> from the stored effect, \<open>+ 10\<close> once, at the first
  Engineer) and by exactly \<open>- 30\<close> otherwise. \<open>execute\<close> has no exceptional result:
  the effect is applied with \<^verbatim>\<open>operator+=\<close>, which does not throw, and the equation holds
  for every ledger, also where the Energy comes out negative, as from Energy 5 with an
  empty roster.
\<close>

theorem solar_storm_energy:
  "at (execute SolarStorm_new resources cs) ''energy'' =
     at resources ''energy'' + (if ''Engineer'' \<in> specialization ` set cs then - 20 else - 30) \<and>
   at (execute SolarStorm_new (assign ''energy'' 5 Resource_new) []) ''energy'' = - 25"
  by (simp add: execute_def event_kinds SolarStorm_execute_def at_repair_loop
      at_Event_execute_SolarStorm at_assign)

text \<open>
  C9. The effect of an event starts as a default-constructed \<^verbatim>\<open>Resource\<close> and
  \<^verbatim>\<open>setResourceEffect\<close> overwrites the one kind it names, so every kind the constructor
  does not set keeps its default (food 100, energy 100, materials 50, oxygen 100). The
  three stored effects are listed; executing TradeShip adds Energy 100 and Oxygen 100 to
  the ledger besides Materials 20 and Food 15.
\<close>

theorem event_effects_keep_defaults:
  "resourceEffect (Event_new ek eventName desc prob) = Resource_new \<and>
   at (resourceEffect (setResourceEffect resource amount e)) k =
     (if k = resource then amount else at (resourceEffect e) k) \<and>
   Resource_new = [(''energy'', 100), (''food'', 100), (''materials'', 50), (''oxygen'', 100)] \<and>
   map resourceEffect (events GameEngine_new) =
     [[(''energy'', - 30), (''food'', 100), (''materials'', 50), (''oxygen'', 100)],
      [(''energy'', 100), (''food'', 15), (''materials'', 20), (''oxygen'', 100)],
      [(''energy'', 100), (''food'', 100), (''materials'', 30), (''oxygen'', - 10)]] \<and>
   at (execute TradeShip_new resources cs) k =
     at resources k +
       (if k = ''energy'' then 100 else if k = ''food'' then 15
        else if k = ''materials'' then 20 else if k = ''oxygen'' then 100 else 0)"
  by (simp add: Event_new_def setResourceEffect_def at_assign Resource_new_def catalog effects
      execute_def event_kinds at_Event_execute_TradeShip)

subsection \<open>Production\<close>

lemma minus_loop_result:
  assumes "distinct (keys d)" and "minus_loop r d = Inr r'"
  shows "find_key r' k =
           (case find_key d k of None \<Rightarrow> find_key r k | Some v \<Rightarrow> Some (at r k - v))"
proof -
  have "\<forall>k\<in>set (keys d). 0 \<le> at r k - at d k"
    using minus_loop_succeeds_iff[OF assms(1), of r] assms(2) by blast
  then have "\<forall>(k, v)\<in>set d. 0 \<le> at r k - v"
    using assms(1) by (force simp: keys_def at_in_keys)
  from minus_loop_ok[OF assms(1) this] assms(2) show ?thesis by auto
qed

lemma consumption_list:
  "consumption g =
     [(''energy'', int (length (buildings g)) * 2), (''food'', int (length (colonists g)) * 3),
      (''materials'', 50), (''oxygen'', int (length (colonists g)) * 2)]"
  by (simp add: consumption_def Resource_new_def Let_def)

lemma building_loop_length:
  "building_loop bs t = (t', bs') \<Longrightarrow> length bs' = length bs"
proof (induction bs arbitrary: t t' bs')
  case Nil
  then show ?case by simp
next
  case (Cons b bs)
  show ?case
  proof (cases "operational b")
    case True
    obtain out b1 where p: "produce b = (out, b1)" by (cases "produce b")
    obtain t1 bs1 where l: "building_loop bs (Resource_plus_assign t out) = (t1, bs1)"
      by (cases "building_loop bs (Resource_plus_assign t out)")
    have "length bs1 = length bs" using Cons.IH l .
    then show ?thesis using Cons.prems True p l by auto
  next
    case False
    obtain t1 bs1 where l: "building_loop bs t = (t1, bs1)" by (cases "building_loop bs t")
    have "length bs1 = length bs" using Cons.IH l .
    then show ?thesis using Cons.prems False l by auto
  qed
qed

lemma work_roster:
  "work c = Inr (out, c') \<Longrightarrow> c_name c' = c_name c \<and> specialization c' = specialization c"
  by (auto simp: work_def Let_def split: if_splits)

lemma colonist_loop_roster:
  "colonist_loop cs t = (x, t', cs') \<Longrightarrow>
   map (\<lambda>c. (c_name c, specialization c)) cs' = map (\<lambda>c. (c_name c, specialization c)) cs"
proof (induction cs arbitrary: t x t' cs')
  case Nil
  then show ?case by simp
next
  case (Cons c cs)
  show ?case
  proof (cases "\<not> assigned c \<and> health c > 50")
    case True
    show ?thesis
    proof (cases "work c")
      case (Inl e)
      then show ?thesis using Cons.prems True by auto
    next
      case (Inr p)
      obtain out c1 where p: "p = (out, c1)" by (cases p)
      obtain x1 t1 cs1 where l: "colonist_loop cs (Resource_plus_assign t out) = (x1, t1, cs1)"
        by (cases "colonist_loop cs (Resource_plus_assign t out)")
      have "map (\<lambda>c. (c_name c, specialization c)) cs1 = map (\<lambda>c. (c_name c, specialization c)) cs"
        using Cons.IH l .
      moreover have "c_name c1 = c_name c \<and> specialization c1 = specialization c"
        using Inr p by (auto dest: work_roster)
      ultimately show ?thesis using Cons.prems True Inr p l by auto
    qed
  next
    case False
    obtain x1 t1 cs1 where l: "colonist_loop cs t = (x1, t1, cs1)"
      by (cases "colonist_loop cs t")
    have "map (\<lambda>c. (c_name c, specialization c)) cs1 = map (\<lambda>c. (c_name c, specialization c)) cs"
      using Cons.IH l .
    then show ?thesis using Cons.prems False l by auto
  qed
qed

lemma colonist_loop_length:
  "colonist_loop cs t = (x, t', cs') \<Longrightarrow> length cs' = length cs"
  using colonist_loop_roster[of cs t x t' cs', THEN arg_cong, of length] by simp

lemma production_step_sizes:
  "length (colonists (snd (production_step g))) = length (colonists g) \<and>
   length (buildings (snd (production_step g))) = length (buildings g)"
proof -
  obtain t bs where b: "building_loop (buildings g) Resource_new = (t, bs)"
    by (cases "building_loop (buildings g) Resource_new")
  obtain x t' cs where c: "colonist_loop (colonists g) t = (x, t', cs)"
    by (cases "colonist_loop (colonists g) t")
  have "length bs = length (buildings g)" using b by (rule building_loop_length)
  moreover have "length cs = length (colonists g)" using c by (rule colonist_loop_length)
  ultimately show ?thesis
    by (simp add: production_step_def Let_def b c split: option.splits)
qed

lemma first_production_step:
  "fst (production_step GameEngine_new) = None \<and>
   colonyResources (snd (production_step GameEngine_new)) =
     [(''energy'', 518), (''food'', 528), (''materials'', 305), (''oxygen'', 602)]"
  by code_simp

lemma first_production_phase:
  "fst (handleProductionPhase GameEngine_new) = None \<and>
   colonyResources (snd (handleProductionPhase GameEngine_new)) =
     [(''energy'', 514), (''food'', 519), (''materials'', 255), (''oxygen'', 596)]"
  by code_simp

text \<open>
  C8. The consumption of a Production phase is a default-constructed \<^verbatim>\<open>Resource\<close> in
  which food, oxygen and energy are overwritten (3 and 2 per colonist, 2 per building);
  its materials entry is the 50 of the default constructor. Whenever the phase returns
  without an exception, the ledger holds 50 materials less than after the production was
  added, whatever the colony, besides the debits of food, oxygen and energy.
\<close>

theorem consumption_debits_default_materials:
  "consumption g =
     [(''energy'', int (length (buildings g)) * 2), (''food'', int (length (colonists g)) * 3),
      (''materials'', 50), (''oxygen'', int (length (colonists g)) * 2)] \<and>
   at (consumption g) ''materials'' = at Resource_new ''materials'' \<and>
   (handleProductionPhase g = (None, g') \<longrightarrow>
      fst (production_step g) = None \<and>
      at (colonyResources g') ''materials'' =
        at (colonyResources (snd (production_step g))) ''materials'' - 50 \<and>
      at (colonyResources g') ''food'' =
        at (colonyResources (snd (production_step g))) ''food'' - int (length (colonists g)) * 3 \<and>
      at (colonyResources g') ''oxygen'' =
        at (colonyResources (snd (production_step g))) ''oxygen'' - int (length (colonists g)) * 2 \<and>
      at (colonyResources g') ''energy'' =
        at (colonyResources (snd (production_step g))) ''energy'' - int (length (buildings g)) * 2)"
proof (intro conjI impI)
  show "consumption g =
     [(''energy'', int (length (buildings g)) * 2), (''food'', int (length (colonists g)) * 3),
      (''materials'', 50), (''oxygen'', int (length (colonists g)) * 2)]"
    by (rule consumption_list)
  show "at (consumption g) ''materials'' = at Resource_new ''materials''"
    by (simp add: consumption_list Resource_new_def at_def find_key_def)
next
  assume run: "handleProductionPhase g = (None, g')"
  obtain x g1 where ps: "production_step g = (x, g1)" by (cases "production_step g")
  have x: "x = None" using run ps
    by (cases x) (simp_all add: handleProductionPhase_def)
  have cs: "consumption_step g1 = (None, g')"
    using run ps x by (simp add: handleProductionPhase_def)
  have sizes: "length (colonists g1) = length (colonists g)" "length (buildings g1) = length (buildings g)"
    using production_step_sizes[of g] ps by simp_all
  obtain r where r: "minus_loop (colonyResources g1) (consumption g1) = Inr r"
    and g': "g' = g1\<lparr>colonyResources := r\<rparr>"
    using cs by (auto simp: consumption_step_def Resource_minus_assign_def Resource_minus_def
        split: sum.splits)
  have dist: "distinct (keys (consumption g1))"
    by (simp add: consumption_list keys_def)
  have fk: "find_key r k =
      (case find_key (consumption g1) k of None \<Rightarrow> find_key (colonyResources g1) k
       | Some v \<Rightarrow> Some (at (colonyResources g1) k - v))" for k
    using minus_loop_result[OF dist r] .
  show "fst (production_step g) = None" using ps x by simp
  show "at (colonyResources g') ''materials'' =
        at (colonyResources (snd (production_step g))) ''materials'' - 50"
    using fk[of "''materials''"] by (simp add: g' ps consumption_list at_def find_key_Cons)
  show "at (colonyResources g') ''food'' =
        at (colonyResources (snd (production_step g))) ''food'' - int (length (colonists g)) * 3"
    using fk[of "''food''"] by (simp add: g' ps consumption_list at_def find_key_Cons sizes)
  show "at (colonyResources g') ''oxygen'' =
        at (colonyResources (snd (production_step g))) ''oxygen'' - int (length (colonists g)) * 2"
    using fk[of "''oxygen''"] by (simp add: g' ps consumption_list at_def find_key_Cons sizes)
  show "at (colonyResources g') ''energy'' =
        at (colonyResources (snd (production_step g))) ''energy'' - int (length (buildings g)) * 2"
    using fk[of "''energy''"] by (simp add: g' ps consumption_list at_def find_key_Cons sizes)
qed

theorem consumption_debits_default_materials_witness:
  "handleProductionPhase GameEngine_new =
     (None, snd (handleProductionPhase GameEngine_new)) \<and>
   at (colonyResources (snd (production_step GameEngine_new))) ''materials'' = 305 \<and>
   at (colonyResources (snd (handleProductionPhase GameEngine_new))) ''materials'' = 255"
proof -
  have run: "handleProductionPhase GameEngine_new =
     (None, snd (handleProductionPhase GameEngine_new))"
    using first_production_phase by (cases "handleProductionPhase GameEngine_new") simp
  have before: "at (colonyResources (snd (production_step GameEngine_new))) ''materials'' = 305"
    using first_production_step by (simp add: at_def find_key_def)
  show ?thesis
    using consumption_debits_default_materials
      [of GameEngine_new "snd (handleProductionPhase GameEngine_new)"] run before
    by simp
qed

text \<open>
  C1, what the code computes. From the engine that \<^verbatim>\<open>main\<close> constructs (ledger food 100,
  energy 100, materials 50, oxygen 100), one Production phase aggregates food 428, energy
  418, materials 255, oxygen 502: the running total and the output of each of the five
  producers start from the default-constructed \<^verbatim>\<open>Resource\<close>, not from an empty one. The
  consumption is food 9, oxygen 6, energy 4 and materials 50, and the ledger ends at food
  519, energy 514, materials 255, oxygen 596.
\<close>

theorem first_production_phase_ledger:
  "colonyResources GameEngine_new =
     [(''energy'', 100), (''food'', 100), (''materials'', 50), (''oxygen'', 100)] \<and>
   fst (snd (colonist_loop (colonists GameEngine_new)
              (fst (building_loop (buildings GameEngine_new) Resource_new)))) =
     [(''energy'', 418), (''food'', 428), (''materials'', 255), (''oxygen'', 502)] \<and>
   consumption GameEngine_new =
     [(''energy'', 4), (''food'', 9), (''materials'', 50), (''oxygen'', 6)] \<and>
   fst (handleProductionPhase GameEngine_new) = None \<and>
   colonyResources (snd (handleProductionPhase GameEngine_new)) =
     [(''energy'', 514), (''food'', 519), (''materials'', 255), (''oxygen'', 596)]"
  by code_simp

text \<open>
  C2, what the code computes. \<^verbatim>\<open>produce\<close> of a building that is not operational returns
  the default-constructed \<^verbatim>\<open>Resource\<close> (food 100, energy 100, materials 50, oxygen 100);
  of an operational building it returns that same default with the one produced kind
  overwritten by rate times level, so a new solar panel yields energy 15 together with
  food 100, materials 50 and oxygen 100.
\<close>

theorem produce_starts_from_defaults:
  "fst (produce b) =
     (if operational b then
        assign (produced_resource (kind b))
          (at (production b) (produced_resource (kind b)) * level b) Resource_new
      else Resource_new) \<and>
   fst (produce (SolarPanel_new\<lparr>operational := False\<rparr>)) =
     [(''energy'', 100), (''food'', 100), (''materials'', 50), (''oxygen'', 100)] \<and>
   fst (produce SolarPanel_new) =
     [(''energy'', 15), (''food'', 100), (''materials'', 50), (''oxygen'', 100)]"
  by (simp add: produce_def produce_kind_def Let_def produced_resource_def SolarPanel_new_def
      Building_new_def Resource_new_def at_def find_key_def)

subsection \<open>The game loop\<close>

lemma production_step_keeps:
  "production_step g = (x, g') \<Longrightarrow>
   map (\<lambda>c. (c_name c, specialization c)) (colonists g') =
     map (\<lambda>c. (c_name c, specialization c)) (colonists g) \<and>
   gameState g' = gameState g"
proof -
  assume run: "production_step g = (x, g')"
  obtain t bs where b: "building_loop (buildings g) Resource_new = (t, bs)"
    by (cases "building_loop (buildings g) Resource_new")
  obtain y t' cs where c: "colonist_loop (colonists g) t = (y, t', cs)"
    by (cases "colonist_loop (colonists g) t")
  have "map (\<lambda>c. (c_name c, specialization c)) cs =
      map (\<lambda>c. (c_name c, specialization c)) (colonists g)"
    using c by (rule colonist_loop_roster)
  then show ?thesis using run
    by (auto simp: production_step_def Let_def b c split: option.splits)
qed

lemma consumption_step_keeps:
  "consumption_step g = (x, g') \<Longrightarrow> colonists g' = colonists g \<and> gameState g' = gameState g"
  by (auto simp: consumption_step_def split: prod.splits)

lemma handleProductionPhase_keeps:
  "handleProductionPhase g = (x, g') \<Longrightarrow>
   map (\<lambda>c. (c_name c, specialization c)) (colonists g') =
     map (\<lambda>c. (c_name c, specialization c)) (colonists g) \<and>
   gameState g' = gameState g"
proof -
  assume run: "handleProductionPhase g = (x, g')"
  obtain y g1 where ps: "production_step g = (y, g1)" by (cases "production_step g")
  note k1 = production_step_keeps[OF ps]
  show ?thesis
  proof (cases y)
    case None
    then have "consumption_step g1 = (x, g')" using run ps by (simp add: handleProductionPhase_def)
    from consumption_step_keeps[OF this] k1 show ?thesis by simp
  next
    case (Some e)
    then have "g' = g1" using run ps by (simp add: handleProductionPhase_def)
    with k1 show ?thesis by simp
  qed
qed

lemma handleEventPhase_keeps:
  "colonists (handleEventPhase g r) = colonists g \<and>
   gameState (handleEventPhase g r) = gameState g"
  by (simp add: handleEventPhase_def split: prod.splits)

lemma buildStructure_keeps:
  "buildStructure g choice = (x, g') \<Longrightarrow> colonists g' = colonists g \<and> gameState g' = gameState g"
  by (auto simp: buildStructure_def split: if_splits prod.splits option.splits)

lemma assignColonists_keeps:
  "map (\<lambda>c. (c_name c, specialization c)) (colonists (assignColonists g choice)) =
     map (\<lambda>c. (c_name c, specialization c)) (colonists g) \<and>
   gameState (assignColonists g choice) = gameState g"
proof (cases "choice > 0 \<and> choice \<le> length (colonists g)")
  case True
  then have i: "choice - 1 < length (colonists g)" by auto
  have "map (\<lambda>c. (c_name c, specialization c))
          ((colonists g)[choice - 1 := setAssigned True (colonists g ! (choice - 1))]) =
        (map (\<lambda>c. (c_name c, specialization c)) (colonists g))
          [choice - 1 := (\<lambda>c. (c_name c, specialization c)) (colonists g ! (choice - 1))]"
    by (simp add: map_update setAssigned_def)
  also have "\<dots> = map (\<lambda>c. (c_name c, specialization c)) (colonists g)"
    using i by (simp add: list_update_same_conv)
  finally show ?thesis using True by (simp add: assignColonists_def)
next
  case False
  then show ?thesis by (auto simp: assignColonists_def)
qed

lemma restColonists_keeps:
  "map (\<lambda>c. (c_name c, specialization c)) (colonists (restColonists g)) =
     map (\<lambda>c. (c_name c, specialization c)) (colonists g) \<and>
   gameState (restColonists g) = gameState g"
  by (simp add: restColonists_def rest_def)

lemma handleManagementPhase_keeps:
  "handleManagementPhase g inp = (x, g') \<Longrightarrow>
   map (\<lambda>c. (c_name c, specialization c)) (colonists g') =
     map (\<lambda>c. (c_name c, specialization c)) (colonists g) \<and>
   gameState g' = gameState g"
  using buildStructure_keeps[of g "structureChoice inp" x g']
    assignColonists_keeps[of g "colonistChoice inp"] restColonists_keeps[of g]
  by (auto simp: handleManagementPhase_def saveGame_def split: if_splits)

lemma handlePhase_keeps:
  "map (\<lambda>c. (c_name c, specialization c)) (colonists (snd (handlePhase g inp))) =
     map (\<lambda>c. (c_name c, specialization c)) (colonists g) \<and>
   gameState (snd (handlePhase g inp)) = gameState g"
proof (cases "currentPhase (gameState g)")
  case PRODUCTION
  obtain x g' where r: "handleProductionPhase g = (x, g')" by (cases "handleProductionPhase g")
  from handleProductionPhase_keeps[OF r] show ?thesis using PRODUCTION r by (simp add: handlePhase_def)
next
  case EVENT
  then show ?thesis using handleEventPhase_keeps[of g "roll inp"] by (simp add: handlePhase_def)
next
  case MANAGEMENT
  obtain x g' where r: "handleManagementPhase g inp = (x, g')" by (cases "handleManagementPhase g inp")
  from handleManagementPhase_keeps[OF r] show ?thesis using MANAGEMENT r by (simp add: handlePhase_def)
qed (simp_all add: handlePhase_def)

lemma checkGameConditions_colonists:
  "colonists (checkGameConditions g) = colonists g \<and>
   colonistCount (gameState (checkGameConditions g)) = colonistCount (gameState g)"
  by (simp add: checkGameConditions_def Let_def endGame_def)

lemma nextPhase_colonistCount: "colonistCount (nextPhase gs) = colonistCount gs"
  by (simp add: nextPhase_def split: GamePhase.splits)

lemma loop_body_unfold:
  "loop_body g inp =
     checkGameConditions ((snd (handlePhase g inp))\<lparr>gameState := nextPhase (gameState g)\<rparr>)"
proof -
  obtain x g1 where h: "handlePhase g inp = (x, g1)" by (cases "handlePhase g inp")
  then have "gameState g1 = gameState g" using handlePhase_keeps[of g inp] by simp
  then show ?thesis using h by (simp add: loop_body_def)
qed

lemma loop_body_keeps:
  "map (\<lambda>c. (c_name c, specialization c)) (colonists (loop_body g inp)) =
     map (\<lambda>c. (c_name c, specialization c)) (colonists g) \<and>
   colonistCount (gameState (loop_body g inp)) = colonistCount (gameState g)"
  using handlePhase_keeps[of g inp]
  by (simp add: loop_body_unfold checkGameConditions_colonists nextPhase_colonistCount)

lemma start_roster:
  "map (\<lambda>c. (c_name c, specialization c)) (colonists GameEngine_new) =
     [(''Alex Chen'', ''Engineer''), (''Maria Santos'', ''Scientist''),
      (''James Wilson'', ''Farmer'')] \<and>
   colonistCount (gameState GameEngine_new) = 3"
  by (simp add: GameEngine_new_def initializeGame_def setupEvents_def GameEngine_members_def
      Let_def Colonist_new_def setColonistCount_def GameState_new_def)

lemma start_running: "gameRunning (gameState GameEngine_new)"
  by (simp add: GameEngine_new_def initializeGame_def setupEvents_def GameEngine_members_def
      Let_def setColonistCount_def GameState_new_def)

text \<open>
  C10. Every engine that the game loop reaches from the engine \<^verbatim>\<open>main\<close> constructs has
  the roster of the set-up: Alex Chen the Engineer, Maria Santos the Scientist and James
  Wilson the Farmer, in this order. No pass removes or adds an entry, so the number of
  colonists (and the stored \<^verbatim>\<open>colonistCount\<close>) is 3, the conjunct
  \<^verbatim>\<open>colonists.size() >= 3\<close> of the win test holds, and the roster is not empty when
  \<^verbatim>\<open>checkGameConditions\<close> runs after the handler of the pass, so the test
  \<^verbatim>\<open>colonists.empty()\<close> never ends the game.
\<close>

theorem roster_invariant:
  assumes "reachable g"
  shows "map (\<lambda>c. (c_name c, specialization c)) (colonists g) =
           [(''Alex Chen'', ''Engineer''), (''Maria Santos'', ''Scientist''),
            (''James Wilson'', ''Farmer'')] \<and>
         length (colonists g) = 3 \<and>
         colonistCount (gameState g) = 3 \<and>
         3 \<le> length (colonists g) \<and>
         colonists g \<noteq> [] \<and>
         colonists (snd (handlePhase g inp)) \<noteq> []"
proof -
  have inv: "map (\<lambda>c. (c_name c, specialization c)) (colonists g) =
           [(''Alex Chen'', ''Engineer''), (''Maria Santos'', ''Scientist''),
            (''James Wilson'', ''Farmer'')] \<and> colonistCount (gameState g) = 3"
    using assms
  proof (induction rule: reachable.induct)
    case start
    show ?case by (rule start_roster)
  next
    case (pass g inp)
    then show ?case using loop_body_keeps[of g inp] by simp
  qed
  have "length (map (\<lambda>c. (c_name c, specialization c)) (colonists g)) = 3"
    using inv by (simp only:) simp
  then have len: "length (colonists g) = 3" by simp
  have "length (map (\<lambda>c. (c_name c, specialization c)) (colonists (snd (handlePhase g inp)))) =
      length (map (\<lambda>c. (c_name c, specialization c)) (colonists g))"
    using handlePhase_keeps[of g inp] by (simp only:)
  then have "length (colonists (snd (handlePhase g inp))) = length (colonists g)" by simp
  with len have "colonists (snd (handlePhase g inp)) \<noteq> []" by auto
  with inv len show ?thesis by auto
qed

theorem roster_invariant_witness:
  "reachable (loop_body GameEngine_new \<lparr>roll = 20, menuChoice = 3, structureChoice = 0, colonistChoice = 0\<rparr>) \<and>
   length (colonists (loop_body GameEngine_new
     \<lparr>roll = 20, menuChoice = 3, structureChoice = 0, colonistChoice = 0\<rparr>)) = 3"
proof -
  have r: "reachable (loop_body GameEngine_new
      \<lparr>roll = 20, menuChoice = 3, structureChoice = 0, colonistChoice = 0\<rparr>)"
    using reachable.start start_running by (rule reachable.pass)
  from roster_invariant[OF r] r show ?thesis by simp
qed







end
